theory Spec2Isabelle
  imports Main "HOL-Library.Product_Lexorder" "HOL-Library.List_Lexorder" "HOL-Library.Char_ord"
begin

section \<open>The expense tracker backend (server.js)\<close>

text \<open>
  The server is a set of Express routes, each issuing one parameterised SQL statement
  through \<^verbatim>\<open>pool.query(text, values)\<close> and mapping the outcome to an HTTP status and a
  JSON body. The embedding keeps that shape: a route handler is a function from the
  request and the store to a response and the store afterwards. The relational store is
  three lists of rows; the libraries the handlers call (jsonwebtoken, bcryptjs) and the
  faults of the store are inputs of the model, collected in the record \<open>env\<close>.
\<close>

subsection \<open>Dates and timestamps\<close>

text \<open>
  A calendar date is (year, month, day); a timestamp is a date and a time of day, counted
  in microseconds after midnight. Both are ordered lexicographically, which is the
  chronological order.
\<close>

type_synonym date = "int \<times> nat \<times> nat"
type_synonym timestamp = "date \<times> nat"

definition year_of :: "timestamp \<Rightarrow> int" where
  "year_of ts = fst (fst ts)"

definition month_of :: "timestamp \<Rightarrow> int" where
  "month_of ts = int (fst (snd (fst ts)))"

definition day_of :: "timestamp \<Rightarrow> int" where
  "day_of ts = int (snd (snd (fst ts)))"

text \<open>The cast \<^verbatim>\<open>created_at::date\<close> drops the time of day.\<close>

definition to_date :: "timestamp \<Rightarrow> date" where
  "to_date ts = fst ts"

text \<open>
  The text of \<^verbatim>\<open>startDate\<close> and \<^verbatim>\<open>endDate\<close> goes to the store unchanged. It is
  either a bare calendar date or a date with a time of day. Read as a timestamp, a bare
  date is midnight of that day; read as a date, a date with a time loses the time.
\<close>

datatype date_text = DateOnly date | DateTime timestamp

fun as_timestamp :: "date_text \<Rightarrow> timestamp" where
  "as_timestamp (DateOnly d) = (d, 0)"
| "as_timestamp (DateTime ts) = ts"

fun as_date :: "date_text \<Rightarrow> date" where
  "as_date (DateOnly d) = d"
| "as_date (DateTime ts) = to_date ts"

subsection \<open>The tables\<close>

record user =
  u_id :: nat
  username :: string
  email :: string
  password_hash :: string

record expense =
  e_id :: nat
  amount :: "int option"
  description :: "string option"
  category :: "string option"
  created_at :: "timestamp option"
  user_id :: nat

record category_row =
  name :: string
  c_user_id :: nat

text \<open>
  The store: the rows of the three tables and the two id sequences. An amount is a
  fixed-scale decimal, held as an integer count of its smallest unit. A column that a
  statement sets to SQL NULL holds \<open>None\<close>.
\<close>

record store =
  users :: "user list"
  users_seq :: nat
  expenses :: "expense list"
  expenses_seq :: nat
  categories :: "category_row list"

subsection \<open>Requests, responses and the environment\<close>

text \<open>
  One request record serves every route; a handler reads the fields its route has.
  A field the client left out (\<^verbatim>\<open>undefined\<close> in JavaScript, NULL as a statement
  parameter) is \<open>None\<close>. \<open>param_id\<close> is the integer that \<^verbatim>\<open>req.params.id\<close> denotes;
  \<open>query_month\<close> and \<open>query_year\<close> are the integers their texts denote, \<open>None\<close> when
  the parameter is absent or empty (both falsy in JavaScript). A text that the store
  cannot read at the type of its column is one of the store faults of \<open>env\<close>.
\<close>

record request =
  authorization :: "string option"
  param_id :: int
  body_username :: "string option"
  body_email :: "string option"
  body_password :: "string option"
  body_amount :: "int option"
  body_description :: "string option"
  body_category :: "string option"
  body_created_at :: "timestamp option"
  body_name :: "string option"
  query_month :: "int option"
  query_year :: "int option"
  query_startDate :: "date_text option"
  query_endDate :: "date_text option"

text \<open>The JSON bodies the handlers send.\<close>

datatype body =
  Error string
| Message string
| Registered string string nat string string
| LoggedIn string string nat string
| ExpenseRow expense
| ExpenseRows "expense list"
| RangeRows "(nat \<times> int option \<times> string option \<times> string option \<times> timestamp option) list"
| CategoryTotals "(string option \<times> int option) list"
| DayTotals "(date \<times> int option) list"
| PartTotals "(int \<times> int option) list"
| Names "string list"
| NameRow string

type_synonym response = "nat \<times> body"

text \<open>
  A store error carries its SQLSTATE, which the handlers read as \<^verbatim>\<open>err.code\<close>.
  The environment of one request:
  \<^item> \<open>jwt_verify\<close>: \<^verbatim>\<open>jwt.verify(token, jwtSecret)\<close>, the \<^verbatim>\<open>userId\<close> of the decoded
    payload, \<open>None\<close> when it throws (bad signature, expired, malformed);
  \<^item> \<open>jwt_sign\<close>: \<^verbatim>\<open>jwt.sign({ userId }, jwtSecret, { expiresIn: "1h" })\<close>;
  \<^item> \<open>bcrypt_hash\<close>: \<^verbatim>\<open>bcrypt.hash(password, await bcrypt.genSalt(10))\<close>;
  \<^item> \<open>bcrypt_compare\<close>: \<^verbatim>\<open>bcrypt.compare(password, hash)\<close>;
  \<^item> \<open>fault\<close>: the error, if any, that the store raises for the request's statement for
    a reason outside the rows modelled here (a lost connection, a parameter text it
    cannot read, a constraint not modelled);
  \<^item> \<open>now\<close>: the store's clock.
\<close>

type_synonym sqlstate = string

record env =
  jwt_verify :: "string \<Rightarrow> nat option"
  jwt_sign :: "nat \<Rightarrow> string"
  bcrypt_hash :: "string \<Rightarrow> string"
  bcrypt_compare :: "string \<Rightarrow> string \<Rightarrow> bool"
  fault :: "sqlstate option"
  now :: timestamp

subsection \<open>pool.query: preparing a statement\<close>

text \<open>
  \<^verbatim>\<open>pool.query(text, values)\<close> with a values array uses the extended protocol: the
  statement text is parsed with no parameter types given, then the values are bound.
  \<open>refs\<close> lists the parameter numbers \<^verbatim>\<open>$n\<close> that occur in the text, \<open>nvalues\<close> is the
  length of the values array. PostgreSQL infers the type of each parameter from the
  place where the text refers to it. The statement has as many parameters as the highest
  number referred to; a lower number that the text never refers to has no type, and the
  parse fails with SQLSTATE 42P18 (could not determine data type of parameter). Binding
  a number of values other than the number of parameters fails with 08P01.
\<close>

definition unreferenced :: "nat list \<Rightarrow> nat list" where
  "unreferenced refs = filter (\<lambda>n. n \<notin> set refs) [1 ..< Suc (foldr max refs 0)]"

definition prepare :: "sqlstate option \<Rightarrow> nat list \<Rightarrow> nat \<Rightarrow> sqlstate option" where
  "prepare flt refs nvalues =
     (case flt of
        Some code \<Rightarrow> Some code
      | None \<Rightarrow>
          if unreferenced refs \<noteq> [] then Some ''42P18''
          else if foldr max refs 0 \<noteq> nvalues then Some ''08P01''
          else None)"

subsection \<open>SQL expressions\<close>

text \<open>A comparison with NULL is not true, so a WHERE clause drops the row.\<close>

definition sql_eq :: "'a option \<Rightarrow> 'a option \<Rightarrow> bool" where
  "sql_eq a b = (case a of None \<Rightarrow> False | Some x \<Rightarrow> (case b of None \<Rightarrow> False | Some y \<Rightarrow> x = y))"

definition sql_between :: "'a::linorder option \<Rightarrow> 'a option \<Rightarrow> 'a option \<Rightarrow> bool" where
  "sql_between v lo hi =
     (case v of None \<Rightarrow> False
      | Some x \<Rightarrow> (case lo of None \<Rightarrow> False
          | Some l \<Rightarrow> (case hi of None \<Rightarrow> False | Some h \<Rightarrow> l \<le> x \<and> x \<le> h)))"

text \<open>\<^verbatim>\<open>SUM(amount)\<close> skips NULLs and is NULL when nothing is left.\<close>

definition sql_sum :: "int option list \<Rightarrow> int option" where
  "sql_sum vs = (case List.map_filter (\<lambda>v. v) vs of [] \<Rightarrow> None | x # xs \<Rightarrow> Some (sum_list (x # xs)))"

text \<open>\<^verbatim>\<open>SELECT key, SUM(amount) ... GROUP BY key\<close>: one row for each key that occurs.\<close>

definition group_sum :: "(expense \<Rightarrow> 'k) \<Rightarrow> expense list \<Rightarrow> ('k \<times> int option) list" where
  "group_sum key rows =
     map (\<lambda>k. (k, sql_sum (map amount (filter (\<lambda>x. key x = k) rows)))) (remdups (map key rows))"

text \<open>
  \<^verbatim>\<open>ORDER BY k DESC\<close>: larger values first, and NULLs before every value (PostgreSQL's
  default for a descending sort). Rows with equal keys keep the order of the scan.
\<close>

fun desc_le :: "'b::linorder option \<Rightarrow> 'b option \<Rightarrow> bool" where
  "desc_le None b = True"
| "desc_le (Some x) None = False"
| "desc_le (Some x) (Some y) = (y \<le> x)"

fun insert_desc :: "('a \<Rightarrow> 'b::linorder option) \<Rightarrow> 'a \<Rightarrow> 'a list \<Rightarrow> 'a list" where
  "insert_desc k x [] = [x]"
| "insert_desc k x (y # ys) =
     (if desc_le (k x) (k y) then x # y # ys else y # insert_desc k x ys)"

definition order_by_desc :: "('a \<Rightarrow> 'b::linorder option) \<Rightarrow> 'a list \<Rightarrow> 'a list" where
  "order_by_desc k xs = foldr (insert_desc k) xs []"

text \<open>The WHERE clauses of the handlers.\<close>

definition in_month :: "int option \<Rightarrow> int option \<Rightarrow> expense \<Rightarrow> bool" where
  "in_month m y x =
     (sql_eq (map_option month_of (created_at x)) m \<and> sql_eq (map_option year_of (created_at x)) y)"

definition in_year :: "int option \<Rightarrow> expense \<Rightarrow> bool" where
  "in_year y x = sql_eq (map_option year_of (created_at x)) y"

text \<open>\<^verbatim>\<open>created_at BETWEEN $1 AND $2\<close>: the parameters are read as timestamps.\<close>

definition between_timestamps :: "date_text option \<Rightarrow> date_text option \<Rightarrow> expense \<Rightarrow> bool" where
  "between_timestamps s e x =
     sql_between (created_at x) (map_option as_timestamp s) (map_option as_timestamp e)"

text \<open>\<^verbatim>\<open>created_at::date BETWEEN $1 AND $2\<close>: the parameters are read as dates.\<close>

definition between_dates :: "date_text option \<Rightarrow> date_text option \<Rightarrow> expense \<Rightarrow> bool" where
  "between_dates s e x =
     sql_between (map_option to_date (created_at x)) (map_option as_date s) (map_option as_date e)"

definition owned :: "nat \<Rightarrow> expense list \<Rightarrow> expense list" where
  "owned uid rows = filter (\<lambda>x. user_id x = uid) rows"

subsection \<open>Inserts\<close>

text \<open>
  A column that an INSERT statement does not list gets the column's default; a column it
  lists gets the value supplied, NULL included.
\<close>

datatype 'a col = Omitted | Given "'a option"

text \<open>
  Modelled from the spec: the declaration of the expenses table is not among the sources.
  By the spec's data model \<open>id\<close> is generated by the store and \<open>created_at\<close> defaults to the
  current time.

  \<^verbatim>\<open>INSERT INTO expenses (...) VALUES (...) RETURNING *\<close>: the new row and the store with it.
\<close>

definition insert_expense ::
  "timestamp \<Rightarrow> int option \<Rightarrow> string option \<Rightarrow> string option \<Rightarrow> timestamp col \<Rightarrow> nat \<Rightarrow> store
     \<Rightarrow> expense \<times> store" where
  "insert_expense clock a d c ca u st =
     (let row = \<lparr>e_id = expenses_seq st, amount = a, description = d, category = c,
                 created_at = (case ca of Omitted \<Rightarrow> Some clock | Given v \<Rightarrow> v),
                 user_id = u\<rparr>
      in (row, st\<lparr>expenses := expenses st @ [row], expenses_seq := Suc (expenses_seq st)\<rparr>))"

text \<open>
  Modelled from the spec: the declaration of the users table is not among the sources.
  By the spec's data model \<open>id\<close> is generated by the store, and \<open>username\<close> and \<open>email\<close> are
  each unique and non-null. A NULL in a non-null column fails with SQLSTATE 23502, a
  second row with the same username or email with 23505. The sequence value drawn for
  the row is not given back when the insert fails.

  \<^verbatim>\<open>INSERT INTO users (username, email, password_hash) VALUES ($1, $2, $3)
  RETURNING id, username, email\<close>
\<close>

definition insert_user ::
  "string option \<Rightarrow> string option \<Rightarrow> string \<Rightarrow> store \<Rightarrow> (sqlstate + user) \<times> store" where
  "insert_user un em ph st =
     (let st1 = st\<lparr>users_seq := Suc (users_seq st)\<rparr> in
      case un of None \<Rightarrow> (Inl ''23502'', st1)
      | Some u \<Rightarrow>
          (case em of None \<Rightarrow> (Inl ''23502'', st1)
           | Some e \<Rightarrow>
               if list_ex (\<lambda>r. username r = u \<or> email r = e) (users st) then (Inl ''23505'', st1)
               else
                 (let row = \<lparr>u_id = users_seq st, username = u, email = e, password_hash = ph\<rparr>
                  in (Inr row, st1\<lparr>users := users st @ [row]\<rparr>))))"

text \<open>
  Modelled from the spec: the declaration of the categories table is not among the
  sources. By the spec's data model the pair (name, user_id) is unique.

  \<^verbatim>\<open>INSERT INTO categories (name, user_id) VALUES ($1, $2) RETURNING name\<close>
\<close>

definition insert_category :: "string \<Rightarrow> nat \<Rightarrow> store \<Rightarrow> (sqlstate + category_row) \<times> store" where
  "insert_category n u st =
     (if list_ex (\<lambda>r. name r = n \<and> c_user_id r = u) (categories st) then (Inl ''23505'', st)
      else
        (let row = \<lparr>name = n, c_user_id = u\<rparr>
         in (Inr row, st\<lparr>categories := categories st @ [row]\<rparr>)))"

subsection \<open>authMiddleware\<close>

text \<open>
  \<^verbatim>\<open>!token\<close> holds for a missing header and for an empty one. \<open>Inl\<close> is the response
  sent instead of calling \<^verbatim>\<open>next()\<close>; \<open>Inr\<close> is the \<^verbatim>\<open>req.userId\<close> the handler runs
  with.
\<close>

definition authMiddleware :: "env \<Rightarrow> request \<Rightarrow> response + nat" where
  "authMiddleware ev req =
     (case authorization req of
        None \<Rightarrow> Inl (401, Error ''No token, authorization denied'')
      | Some token \<Rightarrow>
          if token = [] then Inl (401, Error ''No token, authorization denied'')
          else
            (case jwt_verify ev token of
               None \<Rightarrow> Inl (401, Error ''Token is not valid'')
             | Some uid \<Rightarrow> Inr uid))"

subsection \<open>Registration and login\<close>

text \<open>
  \<^verbatim>\<open>bcrypt.hash\<close> and \<^verbatim>\<open>bcrypt.compare\<close> throw when the password is not a string; the
  handler's catch block answers 500, since that error has no \<^verbatim>\<open>code\<close>.
\<close>

definition post_register :: "env \<Rightarrow> request \<Rightarrow> store \<Rightarrow> response \<times> store" where
  "post_register ev req st =
     (case body_password req of
        None \<Rightarrow> ((500, Error ''Server error during registration''), st)
      | Some password \<Rightarrow>
          (case prepare (fault ev) [1, 2, 3] 3 of
             Some code \<Rightarrow>
               (if code = ''23505'' then ((400, Error ''Username or email already exists''), st)
                else ((500, Error ''Server error during registration''), st))
           | None \<Rightarrow>
               (case insert_user (body_username req) (body_email req) (bcrypt_hash ev password) st of
                  (Inl code, st') \<Rightarrow>
                    (if code = ''23505'' then ((400, Error ''Username or email already exists''), st')
                     else ((500, Error ''Server error during registration''), st'))
                | (Inr newUser, st') \<Rightarrow>
                    ((201, Registered ''User registered successfully'' (jwt_sign ev (u_id newUser))
                             (u_id newUser) (username newUser) (email newUser)), st'))))"

definition post_login :: "env \<Rightarrow> request \<Rightarrow> store \<Rightarrow> response \<times> store" where
  "post_login ev req st =
     (case prepare (fault ev) [1] 1 of
        Some code \<Rightarrow> ((500, Error ''Server error during login''), st)
      | None \<Rightarrow>
          (case filter (\<lambda>r. sql_eq (Some (username r)) (body_username req)) (users st) of
             [] \<Rightarrow> ((400, Error ''Invalid username or password''), st)
           | usr # rest \<Rightarrow>
               (case body_password req of
                  None \<Rightarrow> ((500, Error ''Server error during login''), st)
                | Some password \<Rightarrow>
                    if \<not> bcrypt_compare ev password (password_hash usr)
                    then ((400, Error ''Invalid username or password''), st)
                    else ((200, LoggedIn ''Logged in successfully'' (jwt_sign ev (u_id usr))
                                  (u_id usr) (username usr)), st))))"

subsection \<open>Expenses\<close>

definition post_expenses :: "env \<Rightarrow> nat \<Rightarrow> request \<Rightarrow> store \<Rightarrow> response \<times> store" where
  "post_expenses ev userId req st =
     (case prepare (fault ev) [1, 2, 3, 4, 5] 5 of
        Some code \<Rightarrow> ((500, Error ''Failed to add expense''), st)
      | None \<Rightarrow>
          (case insert_expense (now ev) (body_amount req) (body_description req) (body_category req)
                  (Given (body_created_at req)) userId st of
             (row, st') \<Rightarrow> ((201, ExpenseRow row), st')))"

text \<open>
  The values array is always \<^verbatim>\<open>[month, year, userId]\<close>; the text refers to \<^verbatim>\<open>$1\<close> and
  \<^verbatim>\<open>$2\<close> only when \<^verbatim>\<open>month && year\<close> holds.
\<close>

definition get_expenses :: "env \<Rightarrow> nat \<Rightarrow> request \<Rightarrow> store \<Rightarrow> response \<times> store" where
  "get_expenses ev userId req st =
     (let filtered = (query_month req \<noteq> None \<and> query_year req \<noteq> None);
          refs = (if filtered then [3, 1, 2] else [3])
      in case prepare (fault ev) refs 3 of
           Some code \<Rightarrow> ((500, Error ''Failed to retrieve expenses''), st)
         | None \<Rightarrow>
             (let rows = (if filtered
                          then filter (in_month (query_month req) (query_year req)) (owned userId (expenses st))
                          else owned userId (expenses st))
              in ((200, ExpenseRows (order_by_desc created_at rows)), st)))"

text \<open>
  \<^verbatim>\<open>UPDATE expenses SET ... WHERE id = $5 AND user_id = $6 RETURNING *\<close>; the handler
  answers 404 when \<^verbatim>\<open>rowCount\<close> is 0 and sends \<^verbatim>\<open>rows[0]\<close> otherwise.
\<close>

definition put_expense :: "env \<Rightarrow> nat \<Rightarrow> request \<Rightarrow> store \<Rightarrow> response \<times> store" where
  "put_expense ev userId req st =
     (case prepare (fault ev) [1, 2, 3, 4, 5, 6] 6 of
        Some code \<Rightarrow> ((500, Error ''Failed to update expense''), st)
      | None \<Rightarrow>
          (let hit = (\<lambda>x. int (e_id x) = param_id req \<and> user_id x = userId);
               upd = (\<lambda>x. x\<lparr>amount := body_amount req, description := body_description req,
                             category := body_category req, created_at := body_created_at req\<rparr>)
           in case filter hit (expenses st) of
                [] \<Rightarrow> ((404, Error ''Expense not found or you do not have permission to edit it.''), st)
              | x # rest \<Rightarrow>
                  ((200, ExpenseRow (upd x)),
                   st\<lparr>expenses := map (\<lambda>y. if hit y then upd y else y) (expenses st)\<rparr>)))"

text \<open>\<^verbatim>\<open>DELETE FROM expenses WHERE id = $1 AND user_id = $2 RETURNING *\<close>\<close>

definition delete_expense :: "env \<Rightarrow> nat \<Rightarrow> request \<Rightarrow> store \<Rightarrow> response \<times> store" where
  "delete_expense ev userId req st =
     (case prepare (fault ev) [1, 2] 2 of
        Some code \<Rightarrow> ((500, Error ''Failed to delete expense''), st)
      | None \<Rightarrow>
          (let hit = (\<lambda>x. int (e_id x) = param_id req \<and> user_id x = userId)
           in case filter hit (expenses st) of
                [] \<Rightarrow> ((404, Error ''Expense not found or not authorized''), st)
              | x # rest \<Rightarrow>
                  ((200, Message ''Expense deleted successfully''),
                   st\<lparr>expenses := filter (\<lambda>y. \<not> hit y) (expenses st)\<rparr>)))"

text \<open>
  \<^verbatim>\<open>SELECT id, amount, description, category, created_at FROM expenses
  WHERE user_id = $3 AND created_at::date BETWEEN $1 AND $2 ORDER BY created_at DESC\<close>
\<close>

definition get_expenses_range :: "env \<Rightarrow> nat \<Rightarrow> request \<Rightarrow> store \<Rightarrow> response \<times> store" where
  "get_expenses_range ev userId req st =
     (case prepare (fault ev) [3, 1, 2] 3 of
        Some code \<Rightarrow> ((500, Error ''Failed to retrieve expenses for the date range''), st)
      | None \<Rightarrow>
          (let rows = filter (between_dates (query_startDate req) (query_endDate req))
                        (owned userId (expenses st))
           in ((200, RangeRows (map (\<lambda>x. (e_id x, amount x, description x, category x, created_at x))
                                  (order_by_desc created_at rows))), st)))"

subsection \<open>Reports\<close>

text \<open>
  \<^verbatim>\<open>SELECT category, SUM(amount) AS total_amount FROM expenses WHERE user_id = $3
  [AND EXTRACT(MONTH FROM created_at) = $1 AND EXTRACT(YEAR FROM created_at) = $2]
  GROUP BY category ORDER BY total_amount DESC\<close>, with the values
  \<^verbatim>\<open>[month, year, userId]\<close> in both cases.
\<close>

definition get_category_summary :: "env \<Rightarrow> nat \<Rightarrow> request \<Rightarrow> store \<Rightarrow> response \<times> store" where
  "get_category_summary ev userId req st =
     (let filtered = (query_month req \<noteq> None \<and> query_year req \<noteq> None);
          refs = (if filtered then [3, 1, 2] else [3])
      in case prepare (fault ev) refs 3 of
           Some code \<Rightarrow> ((500, Error ''Failed to retrieve report data''), st)
         | None \<Rightarrow>
             (let rows = (if filtered
                          then filter (in_month (query_month req) (query_year req)) (owned userId (expenses st))
                          else owned userId (expenses st))
              in ((200, CategoryTotals (order_by_desc snd (group_sum category rows))), st)))"

text \<open>
  \<^verbatim>\<open>SELECT EXTRACT(DAY FROM created_at) AS day, SUM(amount) ... WHERE user_id = $3 AND
  EXTRACT(MONTH FROM created_at) = $1 AND EXTRACT(YEAR FROM created_at) = $2
  GROUP BY day ORDER BY day ASC\<close>. A row that passes the WHERE clause has a timestamp.
\<close>

definition get_monthly_summary :: "env \<Rightarrow> nat \<Rightarrow> request \<Rightarrow> store \<Rightarrow> response \<times> store" where
  "get_monthly_summary ev userId req st =
     (case prepare (fault ev) [3, 1, 2] 3 of
        Some code \<Rightarrow> ((500, Error ''Failed to retrieve monthly summary data''), st)
      | None \<Rightarrow>
          (let rows = filter (in_month (query_month req) (query_year req)) (owned userId (expenses st))
           in ((200, PartTotals (sort_key fst
                       (group_sum (\<lambda>x. case created_at x of None \<Rightarrow> 0 | Some ts \<Rightarrow> day_of ts) rows))), st)))"

text \<open>
  \<^verbatim>\<open>SELECT category, SUM(amount) ... WHERE user_id = $3 AND created_at BETWEEN $1 AND $2
  GROUP BY category ORDER BY total_amount DESC\<close>
\<close>

definition get_weekly_category_summary :: "env \<Rightarrow> nat \<Rightarrow> request \<Rightarrow> store \<Rightarrow> response \<times> store" where
  "get_weekly_category_summary ev userId req st =
     (case prepare (fault ev) [3, 1, 2] 3 of
        Some code \<Rightarrow> ((500, Error ''Failed to retrieve weekly category summary''), st)
      | None \<Rightarrow>
          (let rows = filter (between_timestamps (query_startDate req) (query_endDate req))
                        (owned userId (expenses st))
           in ((200, CategoryTotals (order_by_desc snd (group_sum category rows))), st)))"

text \<open>
  \<^verbatim>\<open>SELECT category, SUM(amount) ... WHERE user_id = $2 AND
  EXTRACT(YEAR FROM created_at) = $1 GROUP BY category ORDER BY total_amount DESC\<close>
\<close>

definition get_yearly_category_summary :: "env \<Rightarrow> nat \<Rightarrow> request \<Rightarrow> store \<Rightarrow> response \<times> store" where
  "get_yearly_category_summary ev userId req st =
     (case prepare (fault ev) [2, 1] 2 of
        Some code \<Rightarrow> ((500, Error ''Failed to retrieve yearly category summary''), st)
      | None \<Rightarrow>
          (let rows = filter (in_year (query_year req)) (owned userId (expenses st))
           in ((200, CategoryTotals (order_by_desc snd (group_sum category rows))), st)))"

text \<open>
  \<^verbatim>\<open>SELECT EXTRACT(MONTH FROM created_at) AS month, SUM(amount) ... WHERE user_id = $2 AND
  EXTRACT(YEAR FROM created_at) = $1 GROUP BY month ORDER BY month ASC\<close>
\<close>

definition get_yearly_summary :: "env \<Rightarrow> nat \<Rightarrow> request \<Rightarrow> store \<Rightarrow> response \<times> store" where
  "get_yearly_summary ev userId req st =
     (case prepare (fault ev) [2, 1] 2 of
        Some code \<Rightarrow> ((500, Error ''Failed to retrieve yearly summary data''), st)
      | None \<Rightarrow>
          (let rows = filter (in_year (query_year req)) (owned userId (expenses st))
           in ((200, PartTotals (sort_key fst
                       (group_sum (\<lambda>x. case created_at x of None \<Rightarrow> 0 | Some ts \<Rightarrow> month_of ts) rows))), st)))"

text \<open>
  The key of the two daily reports, \<^verbatim>\<open>created_at::date AS day\<close>. The rows grouped have
  passed a WHERE clause that drops a NULL \<^verbatim>\<open>created_at\<close>.
\<close>

definition day_key :: "expense \<Rightarrow> date" where
  "day_key x = (case created_at x of None \<Rightarrow> (0, 0, 0) | Some ts \<Rightarrow> to_date ts)"

text \<open>
  \<^verbatim>\<open>SELECT created_at::date AS day, SUM(amount) ... WHERE user_id = $3 AND
  created_at BETWEEN $1 AND $2 GROUP BY day ORDER BY day ASC\<close>
\<close>

definition get_weekly_summary :: "env \<Rightarrow> nat \<Rightarrow> request \<Rightarrow> store \<Rightarrow> response \<times> store" where
  "get_weekly_summary ev userId req st =
     (case prepare (fault ev) [3, 1, 2] 3 of
        Some code \<Rightarrow> ((500, Error ''Failed to retrieve weekly summary data''), st)
      | None \<Rightarrow>
          (let rows = filter (between_timestamps (query_startDate req) (query_endDate req))
                        (owned userId (expenses st))
           in ((200, DayTotals (sort_key fst (group_sum day_key rows))), st)))"

text \<open>
  \<^verbatim>\<open>SELECT category, SUM(amount) ... WHERE user_id = $3 AND
  created_at::date BETWEEN $1 AND $2 GROUP BY category ORDER BY total_amount DESC\<close>
\<close>

definition get_range_category_summary :: "env \<Rightarrow> nat \<Rightarrow> request \<Rightarrow> store \<Rightarrow> response \<times> store" where
  "get_range_category_summary ev userId req st =
     (case prepare (fault ev) [3, 1, 2] 3 of
        Some code \<Rightarrow> ((500, Error ''Failed to retrieve category summary''), st)
      | None \<Rightarrow>
          (let rows = filter (between_dates (query_startDate req) (query_endDate req))
                        (owned userId (expenses st))
           in ((200, CategoryTotals (order_by_desc snd (group_sum category rows))), st)))"

text \<open>
  \<^verbatim>\<open>SELECT created_at::date AS day, SUM(amount) ... WHERE user_id = $3 AND
  created_at::date BETWEEN $1 AND $2 GROUP BY day ORDER BY day ASC\<close>
\<close>

definition get_range_daily_summary :: "env \<Rightarrow> nat \<Rightarrow> request \<Rightarrow> store \<Rightarrow> response \<times> store" where
  "get_range_daily_summary ev userId req st =
     (case prepare (fault ev) [3, 1, 2] 3 of
        Some code \<Rightarrow> ((500, Error ''Failed to retrieve daily summary''), st)
      | None \<Rightarrow>
          (let rows = filter (between_dates (query_startDate req) (query_endDate req))
                        (owned userId (expenses st))
           in ((200, DayTotals (sort_key fst (group_sum day_key rows))), st)))"

subsection \<open>Categories\<close>

text \<open>\<^verbatim>\<open>SELECT name FROM categories WHERE user_id = $1 ORDER BY name ASC\<close>\<close>

definition get_categories :: "env \<Rightarrow> nat \<Rightarrow> request \<Rightarrow> store \<Rightarrow> response \<times> store" where
  "get_categories ev userId req st =
     (case prepare (fault ev) [1] 1 of
        Some code \<Rightarrow> ((500, Error ''Failed to retrieve categories''), st)
      | None \<Rightarrow>
          ((200, Names (map name (sort_key name
                                    (filter (\<lambda>r. c_user_id r = userId) (categories st))))), st))"

text \<open>\<^verbatim>\<open>!name\<close> holds for a missing name and for an empty one.\<close>

definition post_categories :: "env \<Rightarrow> nat \<Rightarrow> request \<Rightarrow> store \<Rightarrow> response \<times> store" where
  "post_categories ev userId req st =
     (case body_name req of
        None \<Rightarrow> ((400, Error ''Category name is required''), st)
      | Some nm \<Rightarrow>
          if nm = [] then ((400, Error ''Category name is required''), st)
          else
            (case prepare (fault ev) [1, 2] 2 of
               Some code \<Rightarrow>
                 (if code = ''23505'' then ((409, Error ''Category already exists''), st)
                  else ((500, Error ''Failed to add category''), st))
             | None \<Rightarrow>
                 (case insert_category nm userId st of
                    (Inl code, st') \<Rightarrow>
                      (if code = ''23505'' then ((409, Error ''Category already exists''), st')
                       else ((500, Error ''Failed to add category''), st'))
                  | (Inr row, st') \<Rightarrow> ((201, NameRow (name row)), st'))))"

text \<open>\<^verbatim>\<open>DELETE FROM categories WHERE name = $1 AND user_id = $2 RETURNING *\<close>\<close>

definition delete_categories :: "env \<Rightarrow> nat \<Rightarrow> request \<Rightarrow> store \<Rightarrow> response \<times> store" where
  "delete_categories ev userId req st =
     (case body_name req of
        None \<Rightarrow> ((400, Error ''Category name is required''), st)
      | Some nm \<Rightarrow>
          if nm = [] then ((400, Error ''Category name is required''), st)
          else
            (case prepare (fault ev) [1, 2] 2 of
               Some code \<Rightarrow> ((500, Error ''Failed to delete category''), st)
             | None \<Rightarrow>
                 (let hit = (\<lambda>r. name r = nm \<and> c_user_id r = userId)
                  in case filter hit (categories st) of
                       [] \<Rightarrow> ((404, Error ''Category not found or you do not have permission to delete it.''), st)
                     | r # rest \<Rightarrow>
                         ((200, Message ''Category deleted successfully''),
                          st\<lparr>categories := filter (\<lambda>y. \<not> hit y) (categories st)\<rparr>))))"

subsection \<open>The routes\<close>

text \<open>
  A route registered as \<^verbatim>\<open>app.METHOD(path, authMiddleware, handler)\<close> runs the handler
  only when the middleware calls \<^verbatim>\<open>next()\<close>; otherwise the middleware's response is
  the answer and no statement is issued.
\<close>

datatype route =
  PostRegister | PostLogin
| PostExpenses | GetExpenses | PutExpense | DeleteExpense | GetExpensesRange
| GetCategorySummary | GetMonthlySummary | GetWeeklyCategorySummary
| GetYearlyCategorySummary | GetYearlySummary | GetWeeklySummary
| GetRangeCategorySummary | GetRangeDailySummary
| GetCategories | PostCategories | DeleteCategories

definition with_auth ::
  "(env \<Rightarrow> nat \<Rightarrow> request \<Rightarrow> store \<Rightarrow> response \<times> store) \<Rightarrow> env \<Rightarrow> request \<Rightarrow> store
     \<Rightarrow> response \<times> store" where
  "with_auth handler ev req st =
     (case authMiddleware ev req of
        Inl resp \<Rightarrow> (resp, st)
      | Inr userId \<Rightarrow> handler ev userId req st)"

fun app :: "route \<Rightarrow> env \<Rightarrow> request \<Rightarrow> store \<Rightarrow> response \<times> store" where
  "app PostRegister = post_register"
| "app PostLogin = post_login"
| "app PostExpenses = with_auth post_expenses"
| "app GetExpenses = with_auth get_expenses"
| "app GetCategorySummary = with_auth get_category_summary"
| "app GetMonthlySummary = with_auth get_monthly_summary"
| "app GetWeeklyCategorySummary = with_auth get_weekly_category_summary"
| "app GetYearlyCategorySummary = with_auth get_yearly_category_summary"
| "app GetYearlySummary = with_auth get_yearly_summary"
| "app GetWeeklySummary = with_auth get_weekly_summary"
| "app PutExpense = with_auth put_expense"
| "app DeleteExpense = with_auth delete_expense"
| "app GetExpensesRange = with_auth get_expenses_range"
| "app GetRangeCategorySummary = with_auth get_range_category_summary"
| "app GetRangeDailySummary = with_auth get_range_daily_summary"
| "app GetCategories = with_auth get_categories"
| "app PostCategories = with_auth post_categories"
| "app DeleteCategories = with_auth delete_categories"

text \<open>An expense made on the day \<open>d\<close>, later than midnight.\<close>

definition after_midnight_on :: "date \<Rightarrow> expense \<Rightarrow> bool" where
  "after_midnight_on d x =
     (case created_at x of None \<Rightarrow> False | Some ts \<Rightarrow> to_date ts = d \<and> 0 < snd ts)"

subsection \<open>A small instance\<close>

text \<open>
  One registered user (id 1), three expenses of which the third belongs to user 2, and
  one category. The token \<open>alice-token\<close> verifies as user 1.
\<close>

definition demo_env :: env where
  "demo_env =
     \<lparr>jwt_verify = (\<lambda>t. if t = ''alice-token'' then Some 1 else None),
      jwt_sign = (\<lambda>u. ''alice-token''),
      bcrypt_hash = (\<lambda>p. ''hash:'' @ p),
      bcrypt_compare = (\<lambda>p h. h = ''hash:'' @ p),
      fault = None,
      now = ((2024, 1, 3), 0)\<rparr>"

definition demo_store :: store where
  "demo_store =
     \<lparr>users = [\<lparr>u_id = 1, username = ''alice'', email = ''a@x.com'', password_hash = ''hash:pw123''\<rparr>],
      users_seq = 2,
      expenses =
        [\<lparr>e_id = 1, amount = Some 1000, description = Some ''bus'', category = Some ''transport'',
          created_at = Some ((2024, 1, 3), 54000000000), user_id = 1\<rparr>,
         \<lparr>e_id = 2, amount = Some 4250, description = Some ''coffee'', category = Some ''food'',
          created_at = Some ((2024, 1, 1), 0), user_id = 1\<rparr>,
         \<lparr>e_id = 3, amount = Some 500, description = None, category = Some ''food'',
          created_at = Some ((2024, 1, 2), 1), user_id = 2\<rparr>],
      expenses_seq = 4,
      categories = [\<lparr>name = ''food'', c_user_id = 1\<rparr>]\<rparr>"

definition blank_request :: request where
  "blank_request =
     \<lparr>authorization = None, param_id = 0, body_username = None, body_email = None,
      body_password = None, body_amount = None, body_description = None, body_category = None,
      body_created_at = None, body_name = None, query_month = None, query_year = None,
      query_startDate = None, query_endDate = None\<rparr>"

text \<open>
  The same store with three more expenses of user 1: a second one with an amount on
  2024-01-01, one without an amount on that day, and one without an amount on 2024-01-02.
\<close>

definition busy_store :: store where
  "busy_store =
     demo_store\<lparr>expenses := expenses demo_store @
        [\<lparr>e_id = 4, amount = Some 700, description = Some ''tea'', category = Some ''food'',
          created_at = Some ((2024, 1, 1), 28800000000), user_id = 1\<rparr>,
         \<lparr>e_id = 5, amount = None, description = Some ''gift'', category = None,
          created_at = Some ((2024, 1, 1), 32400000000), user_id = 1\<rparr>,
         \<lparr>e_id = 6, amount = None, description = None, category = None,
          created_at = Some ((2024, 1, 2), 36000000000), user_id = 1\<rparr>],
      expenses_seq := 7\<rparr>"

section \<open>Properties\<close>

subsection \<open>Auxiliary facts\<close>

lemma prepare_ok:
  "prepare None [Suc 0] (Suc 0) = None" "prepare None [Suc 0, 2] 2 = None"
  "prepare None [Suc 0, 2, 3] 3 = None" "prepare None [3, Suc 0, 2] 3 = None"
  "prepare None [2, Suc 0] 2 = None" "prepare None [Suc 0, 2, 3, 4, 5] 5 = None"
  "prepare None [Suc 0, 2, 3, 4, 5, 6] 6 = None"
  by (simp_all add: prepare_def unreferenced_def upt_rec)

lemma prepare_unreferenced: "prepare None [3] 3 = Some ''42P18''"
  by (simp add: prepare_def unreferenced_def upt_rec)

lemma prepare_fault: "prepare (Some c) refs n = Some c"
  by (simp add: prepare_def)

lemma filter_empty_iff: "filter P xs = [] \<longleftrightarrow> (\<forall>x \<in> set xs. \<not> P x)"
  by (induction xs) auto

lemma find_filter: "List.find P xs = Some x \<Longrightarrow> \<exists>rest. filter P xs = x # rest"
  by (induction xs) (auto split: if_splits)

lemma fst_group_sum: "map fst (group_sum key rows) = remdups (map key rows)"
  by (simp add: group_sum_def comp_def)

lemma group_sum_total:
  "(k, amt) \<in> set (group_sum key rows) \<Longrightarrow>
     k \<in> key ` set rows \<and> amt = sql_sum (map amount (filter (\<lambda>x. key x = k) rows))"
  by (auto simp: group_sum_def)

lemma group_sum_key:
  "x \<in> set rows \<Longrightarrow> \<exists>amt. (key x, amt) \<in> set (group_sum key rows)"
  by (auto simp: group_sum_def)

lemma map_filter_id_empty:
  "List.map_filter (\<lambda>v. v) vs = [] \<longleftrightarrow> (\<forall>v \<in> set vs. v = None)"
  by (induction vs) (auto simp: List.map_filter_simps split: option.splits)

lemma sum_list_map_filter_id:
  "sum_list (List.map_filter (\<lambda>v. v) vs) =
     sum_list (map (\<lambda>v. case v of None \<Rightarrow> 0 | Some a \<Rightarrow> a) (vs :: int option list))"
  by (induction vs) (auto simp: List.map_filter_simps split: option.splits)

lemma sql_sum_sum_list:
  "sql_sum vs =
     (if \<forall>v \<in> set vs. v = None then None
      else Some (sum_list (map (\<lambda>v. case v of None \<Rightarrow> 0 | Some a \<Rightarrow> a) vs)))"
proof (cases "List.map_filter (\<lambda>v. v) vs")
  case Nil
  then show ?thesis
    by (simp add: sql_sum_def map_filter_id_empty [symmetric])
next
  case (Cons a as)
  then have "\<not> (\<forall>v \<in> set vs. v = None)"
    by (simp add: map_filter_id_empty [symmetric])
  moreover have "sum_list (a # as) = sum_list (map (\<lambda>v. case v of None \<Rightarrow> 0 | Some a \<Rightarrow> a) vs)"
    using sum_list_map_filter_id [of vs] Cons by simp
  ultimately show ?thesis
    using Cons by (simp add: sql_sum_def)
qed

lemma sql_sum_amounts:
  "sql_sum (map amount xs) =
     (if \<forall>x \<in> set xs. amount x = None then None
      else Some (sum_list (map (\<lambda>x. case amount x of None \<Rightarrow> 0 | Some a \<Rightarrow> a) xs)))"
  by (simp add: sql_sum_sum_list comp_def)

lemma set_insert_desc: "set (insert_desc k x xs) = insert x (set xs)"
  by (induction xs) auto

lemma set_order_by_desc: "set (order_by_desc k xs) = set xs"
  by (induction xs) (simp_all add: order_by_desc_def set_insert_desc)

lemma desc_le_total: "desc_le a b \<or> desc_le b a"
  by (cases a; cases b) auto

lemma desc_le_trans: "desc_le a b \<Longrightarrow> desc_le b c \<Longrightarrow> desc_le a c"
  by (cases a; cases b; cases c) auto

lemma sorted_insert_desc:
  "sorted_wrt (\<lambda>a b. desc_le (k a) (k b)) xs \<Longrightarrow>
     sorted_wrt (\<lambda>a b. desc_le (k a) (k b)) (insert_desc k x xs)"
proof (induction xs)
  case Nil
  then show ?case by simp
next
  case (Cons y ys)
  show ?case
  proof (cases "desc_le (k x) (k y)")
    case True
    with Cons.prems show ?thesis
      by (auto intro: desc_le_trans)
  next
    case False
    then have "desc_le (k y) (k x)"
      using desc_le_total [of "k x" "k y"] by simp
    with False Cons show ?thesis
      by (auto simp: set_insert_desc)
  qed
qed

lemma sorted_order_by_desc: "sorted_wrt (\<lambda>a b. desc_le (k a) (k b)) (order_by_desc k xs)"
  by (induction xs) (simp_all add: order_by_desc_def sorted_insert_desc)

lemma in_range_rows:
  "x \<in> set (filter (between_dates (Some (DateOnly s)) (Some (DateOnly e))) (owned userId (expenses st)))
     \<longleftrightarrow> x \<in> set (expenses st) \<and> user_id x = userId \<and>
          (\<exists>ts. created_at x = Some ts \<and> s \<le> to_date ts \<and> to_date ts \<le> e)"
  by (auto simp: between_dates_def sql_between_def owned_def split: option.splits)

lemma weekly_rows_drop_late:
  "filter (between_timestamps (Some (DateOnly s)) (Some (DateOnly e)))
      (owned userId (filter (\<lambda>y. \<not> after_midnight_on e y) xs))
   = filter (between_timestamps (Some (DateOnly s)) (Some (DateOnly e))) (owned userId xs)"
proof -
  have "between_timestamps (Some (DateOnly s)) (Some (DateOnly e)) y \<Longrightarrow>
          \<not> after_midnight_on e y" for y
    by (auto simp: between_timestamps_def sql_between_def after_midnight_on_def to_date_def
          split: option.splits)
  then show ?thesis
    unfolding owned_def filter_filter by (intro filter_cong [OF refl]) auto
qed

subsection \<open>Ownership of expenses\<close>

text \<open>
  Claim C1. When the store raises no fault and no expense row has both the id of the
  request and the caller's user id, updating and deleting answer 404 and leave the store
  as it was. The response is a constant of the route: it is the same whether the id is
  absent or belongs to a row of another user.
\<close>

theorem expense_update_delete_not_found:
  assumes "fault ev = None"
    and "\<forall>x \<in> set (expenses st). \<not> (int (e_id x) = param_id req \<and> user_id x = userId)"
  shows "put_expense ev userId req st =
           ((404, Error ''Expense not found or you do not have permission to edit it.''), st)
       \<and> delete_expense ev userId req st =
           ((404, Error ''Expense not found or not authorized''), st)"
proof -
  have "filter (\<lambda>x. int (e_id x) = param_id req \<and> user_id x = userId) (expenses st) = []"
    using assms(2) by (simp add: filter_empty_iff)
  then show ?thesis
    using assms(1) by (simp add: put_expense_def delete_expense_def prepare_ok)
qed

text \<open>User 1 addresses expense 3, which belongs to user 2, and expense 9, which does not exist.\<close>

theorem expense_update_delete_not_found_witness:
  "put_expense demo_env 1 (blank_request\<lparr>param_id := 3\<rparr>) demo_store =
     ((404, Error ''Expense not found or you do not have permission to edit it.''), demo_store)
   \<and> delete_expense demo_env 1 (blank_request\<lparr>param_id := 3\<rparr>) demo_store =
     ((404, Error ''Expense not found or not authorized''), demo_store)
   \<and> put_expense demo_env 1 (blank_request\<lparr>param_id := 9\<rparr>) demo_store =
     ((404, Error ''Expense not found or you do not have permission to edit it.''), demo_store)
   \<and> delete_expense demo_env 1 (blank_request\<lparr>param_id := 9\<rparr>) demo_store =
     ((404, Error ''Expense not found or not authorized''), demo_store)"
  using expense_update_delete_not_found
          [where ev = demo_env and st = demo_store and userId = 1
             and req = "blank_request\<lparr>param_id := 3\<rparr>"]
        expense_update_delete_not_found
          [where ev = demo_env and st = demo_store and userId = 1
             and req = "blank_request\<lparr>param_id := 9\<rparr>"]
  by (simp add: demo_env_def demo_store_def blank_request_def)

subsection \<open>The guard\<close>

text \<open>
  Claim C2. The middleware answers instead of the handler exactly when the Authorization
  header is missing, is empty (the test \<^verbatim>\<open>!token\<close>; jsonwebtoken rejects the empty token
  as well), or fails verification; its answer then has status 401. When verification
  succeeds the handler runs with the decoded user id. Every route other than register
  and login goes through the middleware: when it rejects, the route's answer is the
  middleware's and the store is untouched.
\<close>

theorem auth_guard:
  "((\<exists>resp. authMiddleware ev req = Inl resp) \<longleftrightarrow>
      (authorization req = None \<or> authorization req = Some [] \<or>
       (\<exists>t. authorization req = Some t \<and> jwt_verify ev t = None)))
   \<and> (\<forall>resp. authMiddleware ev req = Inl resp \<longrightarrow> fst resp = 401)
   \<and> (\<forall>t uid. authorization req = Some t \<and> t \<noteq> [] \<and> jwt_verify ev t = Some uid \<longrightarrow>
         authMiddleware ev req = Inr uid)
   \<and> (\<forall>r resp. r \<noteq> PostRegister \<and> r \<noteq> PostLogin \<and> authMiddleware ev req = Inl resp \<longrightarrow>
         app r ev req st = (resp, st))"
proof -
  have a: "(\<exists>resp. authMiddleware ev req = Inl resp) \<longleftrightarrow>
      (authorization req = None \<or> authorization req = Some [] \<or>
       (\<exists>t. authorization req = Some t \<and> jwt_verify ev t = None))"
    by (auto simp: authMiddleware_def split: option.splits if_splits)
  have b: "\<forall>resp. authMiddleware ev req = Inl resp \<longrightarrow> fst resp = 401"
    by (auto simp: authMiddleware_def split: option.splits if_splits)
  have c: "\<forall>t uid. authorization req = Some t \<and> t \<noteq> [] \<and> jwt_verify ev t = Some uid \<longrightarrow>
         authMiddleware ev req = Inr uid"
    by (auto simp: authMiddleware_def)
  have d: "app r ev req st = (resp, st)"
    if "r \<noteq> PostRegister" "r \<noteq> PostLogin" "authMiddleware ev req = Inl resp" for r resp
    using that by (cases r) (simp_all add: with_auth_def)
  from a b c d show ?thesis by blast
qed

text \<open>
  A request with a forged token is rejected on the delete route and the store keeps its
  rows; with the token of user 1 the middleware passes user 1 on.
\<close>

theorem auth_guard_witness:
  "authMiddleware demo_env (blank_request\<lparr>authorization := Some ''forged''\<rparr>)
     = Inl (401, Error ''Token is not valid'')
   \<and> app DeleteExpense demo_env (blank_request\<lparr>authorization := Some ''forged'', param_id := 1\<rparr>)
       demo_store = ((401, Error ''Token is not valid''), demo_store)
   \<and> authMiddleware demo_env (blank_request\<lparr>authorization := Some ''alice-token''\<rparr>) = Inr 1"
  using auth_guard [where ev = demo_env and st = demo_store
          and req = "blank_request\<lparr>authorization := Some ''forged'', param_id := 1\<rparr>"]
  by (simp add: demo_env_def blank_request_def authMiddleware_def with_auth_def)

subsection \<open>Creating an expense\<close>

text \<open>
  The column default is used only by an INSERT that leaves the column out, as the first
  revision of this handler did (\<^verbatim>\<open>INSERT INTO expenses (amount, description, category)\<close>).
  A NULL that is passed for a listed column is stored.
\<close>

lemma insert_expense_default:
  "created_at (fst (insert_expense clock a d c Omitted u st)) = Some clock
   \<and> created_at (fst (insert_expense clock a d c (Given None) u st)) = None"
  by (simp add: insert_expense_def Let_def)

text \<open>
  Claim C3. The claim says that a create request without \<open>created_at\<close> stores the current
  time. The handler lists the column \<open>created_at\<close> in its INSERT and passes the request's
  value for it, so for a request without one it passes NULL and the column default is
  never used: whatever the clock, the fault input and the store are, a row that the
  handler answers with, and every row it adds, has no timestamp.
\<close>

theorem create_without_created_at:
  assumes "body_created_at req = None"
  shows "(\<forall>row. fst (post_expenses ev userId req st) \<noteq> (201, ExpenseRow row) \<or> created_at row = None)
       \<and> (\<forall>x \<in> set (expenses (snd (post_expenses ev userId req st))).
             x \<in> set (expenses st) \<or> created_at x = None)
       \<and> (fault ev = None \<longrightarrow>
             post_expenses ev userId req st =
               ((201, ExpenseRow \<lparr>e_id = expenses_seq st, amount = body_amount req,
                      description = body_description req, category = body_category req,
                      created_at = None, user_id = userId\<rparr>),
                st\<lparr>expenses := expenses st @
                      [\<lparr>e_id = expenses_seq st, amount = body_amount req,
                        description = body_description req, category = body_category req,
                        created_at = None, user_id = userId\<rparr>],
                   expenses_seq := Suc (expenses_seq st)\<rparr>))"
  using assms
  by (cases "fault ev")
     (auto simp: post_expenses_def insert_expense_def prepare_ok prepare_fault Let_def)

text \<open>The request \<^verbatim>\<open>{amount: 10.00, description: "bus", category: "transport"}\<close> of user 1.\<close>

theorem create_without_created_at_witness:
  "post_expenses demo_env 1
     (blank_request\<lparr>body_amount := Some 1000, body_description := Some ''bus'',
                     body_category := Some ''transport''\<rparr>) demo_store =
     ((201, ExpenseRow \<lparr>e_id = 4, amount = Some 1000, description = Some ''bus'',
                         category = Some ''transport'', created_at = None, user_id = 1\<rparr>),
      demo_store\<lparr>expenses := expenses demo_store @
                    [\<lparr>e_id = 4, amount = Some 1000, description = Some ''bus'',
                      category = Some ''transport'', created_at = None, user_id = 1\<rparr>],
                 expenses_seq := 5\<rparr>)"
  using create_without_created_at
          [where ev = demo_env and st = demo_store and userId = 1
             and req = "blank_request\<lparr>body_amount := Some 1000, body_description := Some ''bus'',
                                       body_category := Some ''transport''\<rparr>"]
  by (simp add: demo_env_def demo_store_def blank_request_def)

subsection \<open>Listing expenses\<close>

text \<open>
  Claim C4. The claim says that a list request with only one of month and year returns
  all expenses of the caller. The handler then sends a statement text that refers to
  \<^verbatim>\<open>$3\<close> alone, together with the three values \<^verbatim>\<open>[month, year, userId]\<close>; preparing
  that statement fails, and the handler answers 500 whatever the store holds.
\<close>

theorem list_without_both_filters:
  "query_month req = None \<or> query_year req = None \<Longrightarrow>
     get_expenses ev userId req st = ((500, Error ''Failed to retrieve expenses''), st)"
  by (cases "fault ev")
     (auto simp: get_expenses_def prepare_unreferenced prepare_fault Let_def)

text \<open>\<^verbatim>\<open>GET /expenses?month=3\<close> by user 1, who owns two expenses.\<close>

theorem list_without_both_filters_witness:
  "get_expenses demo_env 1 (blank_request\<lparr>query_month := Some 3\<rparr>) demo_store =
     ((500, Error ''Failed to retrieve expenses''), demo_store)"
  using list_without_both_filters
          [where ev = demo_env and st = demo_store and userId = 1
             and req = "blank_request\<lparr>query_month := Some 3\<rparr>"]
  by (simp add: blank_request_def)

text \<open>
  With both month and year, and no store fault, the handler answers 200 with exactly the
  caller's expenses of that calendar month, later timestamps first.
\<close>

lemma list_with_both_filters:
  assumes "fault ev = None" and "query_month req = Some m" and "query_year req = Some y"
  shows "\<exists>rows. get_expenses ev userId req st = ((200, ExpenseRows rows), st)
       \<and> sorted_wrt (\<lambda>a b. desc_le (created_at a) (created_at b)) rows
       \<and> set rows = {x \<in> set (expenses st). user_id x = userId \<and>
                        (\<exists>ts. created_at x = Some ts \<and> month_of ts = m \<and> year_of ts = y)}"
proof -
  have "set (filter (in_month (Some m) (Some y)) (owned userId (expenses st))) =
        {x \<in> set (expenses st). user_id x = userId \<and>
                        (\<exists>ts. created_at x = Some ts \<and> month_of ts = m \<and> year_of ts = y)}"
    by (auto simp: in_month_def sql_eq_def owned_def split: option.splits)
  then show ?thesis
    using assms
    by (simp add: get_expenses_def prepare_ok Let_def set_order_by_desc sorted_order_by_desc)
qed

subsection \<open>Registration and login\<close>

text \<open>
  Claim C5. A registration with all three fields whose username or email is already in
  the users table answers 400 when the store raises no other fault, and the rows of the
  three tables are as before. A store fault with a code other than 23505 answers 500 and
  leaves the store as it was.
\<close>

theorem register_conflict:
  "(\<forall>pw un em. body_password req = Some pw \<and> body_username req = Some un \<and> body_email req = Some em \<and>
        fault ev = None \<and> (\<exists>r \<in> set (users st). username r = un \<or> email r = em) \<longrightarrow>
        fst (post_register ev req st) = (400, Error ''Username or email already exists'') \<and>
        users (snd (post_register ev req st)) = users st \<and>
        expenses (snd (post_register ev req st)) = expenses st \<and>
        categories (snd (post_register ev req st)) = categories st)
   \<and> (\<forall>code. fault ev = Some code \<and> code \<noteq> ''23505'' \<longrightarrow>
        post_register ev req st = ((500, Error ''Server error during registration''), st))"
  by (auto simp: post_register_def insert_user_def prepare_ok prepare_fault list_ex_iff Let_def
        split: option.splits)

text \<open>A second \<open>alice\<close> with another email, and a registration while the store is unreachable.\<close>

theorem register_conflict_witness:
  "fst (post_register demo_env
          (blank_request\<lparr>body_username := Some ''alice'', body_email := Some ''b@x.com'',
                          body_password := Some ''pw456''\<rparr>) demo_store)
     = (400, Error ''Username or email already exists'')
   \<and> users (snd (post_register demo_env
          (blank_request\<lparr>body_username := Some ''alice'', body_email := Some ''b@x.com'',
                          body_password := Some ''pw456''\<rparr>) demo_store))
     = users demo_store
   \<and> post_register (demo_env\<lparr>fault := Some ''08006''\<rparr>)
          (blank_request\<lparr>body_username := Some ''bob'', body_email := Some ''b@x.com'',
                          body_password := Some ''pw456''\<rparr>) demo_store
     = ((500, Error ''Server error during registration''), demo_store)"
  using register_conflict
          [where ev = demo_env and st = demo_store
             and req = "blank_request\<lparr>body_username := Some ''alice'', body_email := Some ''b@x.com'',
                                       body_password := Some ''pw456''\<rparr>"]
        register_conflict
          [where ev = "demo_env\<lparr>fault := Some ''08006''\<rparr>" and st = demo_store
             and req = "blank_request\<lparr>body_username := Some ''bob'', body_email := Some ''b@x.com'',
                                       body_password := Some ''pw456''\<rparr>"]
  by (simp add: demo_env_def demo_store_def blank_request_def)

text \<open>
  A login that carries a password: when the store raises no fault, a username that
  matches no user and a password that does not compare equal to the stored hash of the
  user found get the same answer, status 400 with the body
  \<^verbatim>\<open>{error: "Invalid username or password"}\<close>.
\<close>

lemma login_invalid_credentials:
  assumes "fault ev = None"
  shows "((\<forall>r \<in> set (users st). body_username req \<noteq> Some (username r)) \<longrightarrow>
            post_login ev req st = ((400, Error ''Invalid username or password''), st))
       \<and> (\<forall>un usr pw. body_username req = Some un \<and>
              List.find (\<lambda>r. username r = un) (users st) = Some usr \<and>
              body_password req = Some pw \<and> \<not> bcrypt_compare ev pw (password_hash usr) \<longrightarrow>
            post_login ev req st = ((400, Error ''Invalid username or password''), st))"
proof -
  have a: "post_login ev req st = ((400, Error ''Invalid username or password''), st)"
    if "\<forall>r \<in> set (users st). body_username req \<noteq> Some (username r)"
  proof -
    have "filter (\<lambda>r. sql_eq (Some (username r)) (body_username req)) (users st) = []"
      using that by (auto simp: filter_empty_iff sql_eq_def split: option.splits)
    then show ?thesis
      using assms by (simp add: post_login_def prepare_ok)
  qed
  have b: "post_login ev req st = ((400, Error ''Invalid username or password''), st)"
    if h: "body_username req = Some un" "List.find (\<lambda>r. username r = un) (users st) = Some usr"
      "body_password req = Some pw" "\<not> bcrypt_compare ev pw (password_hash usr)" for un usr pw
  proof -
    have eq: "(\<lambda>r. sql_eq (Some (username r)) (body_username req)) = (\<lambda>r. username r = un)"
      using h(1) by (simp add: sql_eq_def)
    obtain rest where "filter (\<lambda>r. username r = un) (users st) = usr # rest"
      using find_filter [OF h(2)] by blast
    then have "filter (\<lambda>r. sql_eq (Some (username r)) (body_username req)) (users st) = usr # rest"
      by (simp only: eq)
    then show ?thesis
      using assms h(3,4) by (simp add: post_login_def prepare_ok)
  qed
  from a b show ?thesis by blast
qed

text \<open>An unknown user and a wrong password for \<open>alice\<close>.\<close>

lemma login_invalid_credentials_example:
  "post_login demo_env
     (blank_request\<lparr>body_username := Some ''mallory'', body_password := Some ''pw123''\<rparr>) demo_store
     = ((400, Error ''Invalid username or password''), demo_store)
   \<and> post_login demo_env
     (blank_request\<lparr>body_username := Some ''alice'', body_password := Some ''wrongpw''\<rparr>) demo_store
     = ((400, Error ''Invalid username or password''), demo_store)"
  using login_invalid_credentials
          [where ev = demo_env and st = demo_store
             and req = "blank_request\<lparr>body_username := Some ''mallory'', body_password := Some ''pw123''\<rparr>"]
        login_invalid_credentials
          [where ev = demo_env and st = demo_store
             and req = "blank_request\<lparr>body_username := Some ''alice'', body_password := Some ''wrongpw''\<rparr>"]
  by (simp add: demo_env_def demo_store_def blank_request_def)

text \<open>
  Claim C6. The claim says that an unknown username and a failed comparison get the same
  answer for every login. For a login without a password they do not:
  \<^verbatim>\<open>bcrypt.compare(undefined, hash)\<close> throws, so a username that exists is answered
  with status 500 and \<^verbatim>\<open>{error: "Server error during login"}\<close>, while a username
  that does not exist is answered with status 400 and
  \<^verbatim>\<open>{error: "Invalid username or password"}\<close>.
\<close>

theorem login_without_password:
  assumes "fault ev = None" and "body_password req = None"
  shows "((\<forall>r \<in> set (users st). body_username req \<noteq> Some (username r)) \<longrightarrow>
            post_login ev req st = ((400, Error ''Invalid username or password''), st))
       \<and> ((\<exists>r \<in> set (users st). body_username req = Some (username r)) \<longrightarrow>
            post_login ev req st = ((500, Error ''Server error during login''), st))"
proof -
  have a: "post_login ev req st = ((400, Error ''Invalid username or password''), st)"
    if "\<forall>r \<in> set (users st). body_username req \<noteq> Some (username r)"
  proof -
    have "filter (\<lambda>r. sql_eq (Some (username r)) (body_username req)) (users st) = []"
      using that by (auto simp: filter_empty_iff sql_eq_def split: option.splits)
    then show ?thesis
      using assms by (simp add: post_login_def prepare_ok)
  qed
  have b: "post_login ev req st = ((500, Error ''Server error during login''), st)"
    if "\<exists>r \<in> set (users st). body_username req = Some (username r)"
  proof -
    have "filter (\<lambda>r. sql_eq (Some (username r)) (body_username req)) (users st) \<noteq> []"
      using that by (auto simp: filter_empty_iff sql_eq_def)
    then obtain usr rest where
      "filter (\<lambda>r. sql_eq (Some (username r)) (body_username req)) (users st) = usr # rest"
      by (cases "filter (\<lambda>r. sql_eq (Some (username r)) (body_username req)) (users st)") auto
    then show ?thesis
      using assms by (simp add: post_login_def prepare_ok)
  qed
  from a b show ?thesis by blast
qed

text \<open>\<open>alice\<close> is registered, \<open>mallory\<close> is not; neither request has a password.\<close>

theorem login_without_password_witness:
  "post_login demo_env (blank_request\<lparr>body_username := Some ''alice''\<rparr>) demo_store
     = ((500, Error ''Server error during login''), demo_store)
   \<and> post_login demo_env (blank_request\<lparr>body_username := Some ''mallory''\<rparr>) demo_store
     = ((400, Error ''Invalid username or password''), demo_store)"
  using login_without_password
          [where ev = demo_env and st = demo_store
             and req = "blank_request\<lparr>body_username := Some ''alice''\<rparr>"]
        login_without_password
          [where ev = demo_env and st = demo_store
             and req = "blank_request\<lparr>body_username := Some ''mallory''\<rparr>"]
  by (simp add: demo_env_def demo_store_def blank_request_def)

subsection \<open>Categories\<close>

text \<open>
  Claim C8. Creating a category with a missing or empty name answers 400 and returns the
  store as it was, whatever the fault input is. With a name, and no other store fault:
  when the caller already has a category of that name the answer is 409 and the store is
  unchanged; otherwise the row (name, caller) is appended and the answer is 201 with the
  name.
\<close>

theorem category_create:
  "((body_name req = None \<or> body_name req = Some []) \<longrightarrow>
      post_categories ev userId req st = ((400, Error ''Category name is required''), st))
   \<and> (\<forall>nm. body_name req = Some nm \<and> nm \<noteq> [] \<and> fault ev = None \<and>
         (\<exists>r \<in> set (categories st). name r = nm \<and> c_user_id r = userId) \<longrightarrow>
         post_categories ev userId req st = ((409, Error ''Category already exists''), st))
   \<and> (\<forall>nm. body_name req = Some nm \<and> nm \<noteq> [] \<and> fault ev = None \<and>
         \<not> (\<exists>r \<in> set (categories st). name r = nm \<and> c_user_id r = userId) \<longrightarrow>
         post_categories ev userId req st =
           ((201, NameRow nm), st\<lparr>categories := categories st @ [\<lparr>name = nm, c_user_id = userId\<rparr>]\<rparr>))"
  by (auto simp: post_categories_def insert_category_def prepare_ok list_ex_iff Let_def)

text \<open>User 1 sends no name, then \<open>food\<close> (which the user has), then \<open>rent\<close>.\<close>

theorem category_create_witness:
  "post_categories demo_env 1 blank_request demo_store
     = ((400, Error ''Category name is required''), demo_store)
   \<and> post_categories demo_env 1 (blank_request\<lparr>body_name := Some ''food''\<rparr>) demo_store
     = ((409, Error ''Category already exists''), demo_store)
   \<and> post_categories demo_env 1 (blank_request\<lparr>body_name := Some ''rent''\<rparr>) demo_store
     = ((201, NameRow ''rent''),
        demo_store\<lparr>categories := categories demo_store @ [\<lparr>name = ''rent'', c_user_id = 1\<rparr>]\<rparr>)"
  using category_create [where ev = demo_env and st = demo_store and userId = 1 and req = blank_request]
        category_create [where ev = demo_env and st = demo_store and userId = 1
             and req = "blank_request\<lparr>body_name := Some ''food''\<rparr>"]
        category_create [where ev = demo_env and st = demo_store and userId = 1
             and req = "blank_request\<lparr>body_name := Some ''rent''\<rparr>"]
  by (simp add: demo_env_def demo_store_def blank_request_def)

text \<open>
  Claim C9. Deleting a category with a missing or empty name answers 400 with the body
  \<^verbatim>\<open>{error: "Category name is required"}\<close>. No statement is issued: the answer does
  not depend on the fault input or on the rows, and the store is returned as it was.
\<close>

theorem category_delete_requires_name:
  "body_name req = None \<or> body_name req = Some [] \<Longrightarrow>
     delete_categories ev userId req st = ((400, Error ''Category name is required''), st)"
  by (auto simp: delete_categories_def)

text \<open>An empty name, sent while the store is unreachable.\<close>

theorem category_delete_requires_name_witness:
  "delete_categories (demo_env\<lparr>fault := Some ''08006''\<rparr>) 1 (blank_request\<lparr>body_name := Some []\<rparr>)
     demo_store = ((400, Error ''Category name is required''), demo_store)"
  using category_delete_requires_name
          [where ev = "demo_env\<lparr>fault := Some ''08006''\<rparr>" and st = demo_store and userId = 1
             and req = "blank_request\<lparr>body_name := Some []\<rparr>"]
  by (simp add: blank_request_def)

subsection \<open>Reports over a date range\<close>

text \<open>
  Claim C7. For a start and an end that are bare dates, and no store fault, the
  range-daily-summary answers 200 with rows (day, total) such that: the days are in
  ascending order and no day occurs twice; the days are exactly the dates \<open>d\<close> between
  start and end, both included, on which the caller has an expense; and the total of a
  day is the SQL sum of the amounts of all the caller's expenses whose timestamp has that
  date, at whatever time of day: NULL when none of them has an amount, and otherwise the
  arithmetic sum of the amounts they have.
\<close>

theorem range_daily_summary:
  assumes "fault ev = None"
    and "query_startDate req = Some (DateOnly s)"
    and "query_endDate req = Some (DateOnly e)"
  shows "\<exists>rows. get_range_daily_summary ev userId req st = ((200, DayTotals rows), st)
       \<and> sorted (map fst rows) \<and> distinct (map fst rows)
       \<and> set (map fst rows) =
            {d. s \<le> d \<and> d \<le> e \<and>
                (\<exists>x \<in> set (expenses st). user_id x = userId \<and> map_option to_date (created_at x) = Some d)}
       \<and> (\<forall>(d, amt) \<in> set rows.
             amt = sql_sum (map amount
                       (filter (\<lambda>x. user_id x = userId \<and> map_option to_date (created_at x) = Some d)
                          (expenses st))))
       \<and> (\<forall>(d, amt) \<in> set rows.
             amt =
               (if \<forall>x \<in> set (filter (\<lambda>x. user_id x = userId \<and>
                                        map_option to_date (created_at x) = Some d) (expenses st)).
                     amount x = None
                then None
                else Some (sum_list (map (\<lambda>x. case amount x of None \<Rightarrow> 0 | Some a \<Rightarrow> a)
                        (filter (\<lambda>x. user_id x = userId \<and>
                                   map_option to_date (created_at x) = Some d) (expenses st))))))"
proof -
  define R where "R = filter (between_dates (Some (DateOnly s)) (Some (DateOnly e))) (owned userId (expenses st))"
  define rows where "rows = sort_key fst (group_sum day_key R)"
  have resp: "get_range_daily_summary ev userId req st = ((200, DayTotals rows), st)"
    using assms by (simp add: get_range_daily_summary_def prepare_ok rows_def R_def)
  have inR: "x \<in> set R \<longleftrightarrow> x \<in> set (expenses st) \<and> user_id x = userId \<and>
          (\<exists>ts. created_at x = Some ts \<and> s \<le> to_date ts \<and> to_date ts \<le> e)" for x
    unfolding R_def by (rule in_range_rows)
  have srt: "sorted (map fst rows)"
    by (simp add: rows_def)
  have "distinct (map fst (group_sum day_key R))"
    by (simp add: fst_group_sum)
  then have dst: "distinct (map fst rows)"
    by (simp add: rows_def distinct_map)
  have keys: "set (map fst rows) = day_key ` set R"
    using arg_cong [OF fst_group_sum, of set day_key R] by (simp add: rows_def)
  have dk: "day_key x = d \<longleftrightarrow> map_option to_date (created_at x) = Some d" if "x \<in> set R" for x d
    using that by (auto simp: inR day_key_def)
  have keyset: "set (map fst rows) =
            {d. s \<le> d \<and> d \<le> e \<and>
                (\<exists>x \<in> set (expenses st). user_id x = userId \<and> map_option to_date (created_at x) = Some d)}"
    unfolding keys
  proof (intro set_eqI iffI)
    fix d assume "d \<in> day_key ` set R"
    then obtain x where x: "x \<in> set R" "d = day_key x" by blast
    then show "d \<in> {d. s \<le> d \<and> d \<le> e \<and>
                (\<exists>x \<in> set (expenses st). user_id x = userId \<and> map_option to_date (created_at x) = Some d)}"
      by (auto simp: inR day_key_def)
  next
    fix d assume "d \<in> {d. s \<le> d \<and> d \<le> e \<and>
                (\<exists>x \<in> set (expenses st). user_id x = userId \<and> map_option to_date (created_at x) = Some d)}"
    then obtain x where x: "s \<le> d" "d \<le> e" "x \<in> set (expenses st)" "user_id x = userId"
        "map_option to_date (created_at x) = Some d" by blast
    then have "x \<in> set R" by (auto simp: inR)
    moreover have "day_key x = d" using x(5) by (auto simp: day_key_def)
    ultimately show "d \<in> day_key ` set R" by blast
  qed
  have tots: "amt = sql_sum (map amount
                       (filter (\<lambda>x. user_id x = userId \<and> map_option to_date (created_at x) = Some d)
                          (expenses st)))"
    if "(d, amt) \<in> set rows" for d amt
  proof -
    from that have m: "(d, amt) \<in> set (group_sum day_key R)" by (simp add: rows_def)
    from group_sum_total [OF m] have d: "d \<in> day_key ` set R"
      and t: "amt = sql_sum (map amount (filter (\<lambda>x. day_key x = d) R))" by auto
    from d have rng: "s \<le> d" "d \<le> e" by (auto simp: inR day_key_def)
    have "filter (\<lambda>x. day_key x = d) R =
          filter (\<lambda>x. user_id x = userId \<and> map_option to_date (created_at x) = Some d) (expenses st)"
      unfolding R_def owned_def filter_filter
      by (rule filter_cong [OF refl])
         (use rng in \<open>auto simp: between_dates_def sql_between_def day_key_def split: option.splits\<close>)
    with t show ?thesis by simp
  qed
  have sums: "amt =
               (if \<forall>x \<in> set (filter (\<lambda>x. user_id x = userId \<and>
                                        map_option to_date (created_at x) = Some d) (expenses st)).
                     amount x = None
                then None
                else Some (sum_list (map (\<lambda>x. case amount x of None \<Rightarrow> 0 | Some a \<Rightarrow> a)
                        (filter (\<lambda>x. user_id x = userId \<and>
                                   map_option to_date (created_at x) = Some d) (expenses st)))))"
    if "(d, amt) \<in> set rows" for d amt
    using tots [OF that] by (simp only: sql_sum_amounts)
  from resp srt dst keyset tots sums show ?thesis by blast
qed

text \<open>
  User 1 from 2024-01-01 to 2024-01-03: two amounts and a NULL add up on the first day, the
  second day has no amount at all, and the expense of 15:00 on the last day counts.
\<close>

theorem range_daily_summary_witness:
  "get_range_daily_summary demo_env 1
     (blank_request\<lparr>query_startDate := Some (DateOnly (2024, 1, 1)),
                     query_endDate := Some (DateOnly (2024, 1, 3))\<rparr>) busy_store =
     ((200, DayTotals [((2024, 1, 1), Some 4950), ((2024, 1, 2), None), ((2024, 1, 3), Some 1000)]),
      busy_store)"
  using range_daily_summary
          [where ev = demo_env and st = busy_store and userId = 1
             and s = "(2024, 1, 1)" and e = "(2024, 1, 3)"
             and req = "blank_request\<lparr>query_startDate := Some (DateOnly (2024, 1, 1)),
                                       query_endDate := Some (DateOnly (2024, 1, 3))\<rparr>"]
  by (simp add: get_range_daily_summary_def demo_env_def demo_store_def busy_store_def
        blank_request_def prepare_def unreferenced_def upt_rec owned_def between_dates_def
        sql_between_def to_date_def group_sum_def day_key_def sql_sum_def List.map_filter_simps)

text \<open>
  Claim C10. The two weekly reports compare the whole timestamp with the bounds. With
  bare dates as bounds and no store fault, an expense \<open>x\<close> of the caller made on the end
  date after midnight does not pass their WHERE clause, and both reports answer as if
  every such expense were not in the table. The same expense passes the WHERE clause of
  the two range reports, whose answers have a row for its day and for its category.
\<close>

theorem weekly_reports_compare_timestamps:
  assumes "fault ev = None"
    and "query_startDate req = Some (DateOnly s)"
    and "query_endDate req = Some (DateOnly e)"
    and "x \<in> set (expenses st)" and "user_id x = userId"
    and "created_at x = Some (e, t)" and "0 < t" and "s \<le> e"
  shows "after_midnight_on e x
       \<and> \<not> between_timestamps (query_startDate req) (query_endDate req) x
       \<and> between_dates (query_startDate req) (query_endDate req) x
       \<and> fst (get_weekly_summary ev userId req st) =
           fst (get_weekly_summary ev userId req
                  (st\<lparr>expenses := filter (\<lambda>y. \<not> after_midnight_on e y) (expenses st)\<rparr>))
       \<and> fst (get_weekly_category_summary ev userId req st) =
           fst (get_weekly_category_summary ev userId req
                  (st\<lparr>expenses := filter (\<lambda>y. \<not> after_midnight_on e y) (expenses st)\<rparr>))
       \<and> (\<exists>rows amt. fst (get_range_daily_summary ev userId req st) = (200, DayTotals rows)
              \<and> (e, amt) \<in> set rows)
       \<and> (\<exists>rows amt. fst (get_range_category_summary ev userId req st) = (200, CategoryTotals rows)
              \<and> (category x, amt) \<in> set rows)"
proof -
  define R where "R = filter (between_dates (Some (DateOnly s)) (Some (DateOnly e))) (owned userId (expenses st))"
  have a: "\<not> between_timestamps (query_startDate req) (query_endDate req) x"
    using assms(2,3,6,7) by (simp add: between_timestamps_def sql_between_def)
  have b: "between_dates (query_startDate req) (query_endDate req) x"
    using assms(2,3,6,8) by (simp add: between_dates_def sql_between_def to_date_def)
  have c: "fst (get_weekly_summary ev userId req st) =
           fst (get_weekly_summary ev userId req
                  (st\<lparr>expenses := filter (\<lambda>y. \<not> after_midnight_on e y) (expenses st)\<rparr>))"
    using assms(1,2,3) by (simp add: get_weekly_summary_def prepare_ok weekly_rows_drop_late)
  have d: "fst (get_weekly_category_summary ev userId req st) =
           fst (get_weekly_category_summary ev userId req
                  (st\<lparr>expenses := filter (\<lambda>y. \<not> after_midnight_on e y) (expenses st)\<rparr>))"
    using assms(1,2,3) by (simp add: get_weekly_category_summary_def prepare_ok weekly_rows_drop_late)
  have xR: "x \<in> set R"
    using b assms(2,3,4,5) by (simp add: R_def owned_def)
  have "day_key x = e"
    using assms(6) by (simp add: day_key_def to_date_def)
  with group_sum_key [OF xR, of day_key] obtain amt where
    "(e, amt) \<in> set (sort_key fst (group_sum day_key R))" by auto
  moreover have "fst (get_range_daily_summary ev userId req st) =
      (200, DayTotals (sort_key fst (group_sum day_key R)))"
    using assms(1,2,3) by (simp add: get_range_daily_summary_def prepare_ok R_def)
  ultimately have f: "\<exists>rows amt. fst (get_range_daily_summary ev userId req st) = (200, DayTotals rows)
              \<and> (e, amt) \<in> set rows" by blast
  from group_sum_key [OF xR, of category] obtain amt' where
    "(category x, amt') \<in> set (order_by_desc snd (group_sum category R))"
    by (auto simp: set_order_by_desc)
  moreover have "fst (get_range_category_summary ev userId req st) =
      (200, CategoryTotals (order_by_desc snd (group_sum category R)))"
    using assms(1,2,3) by (simp add: get_range_category_summary_def prepare_ok R_def)
  ultimately have g: "\<exists>rows amt. fst (get_range_category_summary ev userId req st) = (200, CategoryTotals rows)
              \<and> (category x, amt) \<in> set rows" by blast
  have l: "after_midnight_on e x"
    using assms(6,7) by (simp add: after_midnight_on_def to_date_def)
  from l a b c d f g show ?thesis by blast
qed

text \<open>
  User 1 from 2024-01-01 to 2024-01-03: the expense of 15:00 on 2024-01-03 is missing
  from the weekly reports and present in the range reports.
\<close>

theorem weekly_reports_compare_timestamps_witness:
  "after_midnight_on (2024, 1, 3)
     \<lparr>e_id = 1, amount = Some 1000, description = Some ''bus'', category = Some ''transport'',
      created_at = Some ((2024, 1, 3), 54000000000), user_id = 1\<rparr>
   \<and> fst (get_weekly_summary demo_env 1
     (blank_request\<lparr>query_startDate := Some (DateOnly (2024, 1, 1)),
                     query_endDate := Some (DateOnly (2024, 1, 3))\<rparr>) demo_store) =
     (200, DayTotals [((2024, 1, 1), Some 4250)])
   \<and> fst (get_weekly_category_summary demo_env 1
     (blank_request\<lparr>query_startDate := Some (DateOnly (2024, 1, 1)),
                     query_endDate := Some (DateOnly (2024, 1, 3))\<rparr>) demo_store) =
     (200, CategoryTotals [(Some ''food'', Some 4250)])
   \<and> fst (get_range_daily_summary demo_env 1
     (blank_request\<lparr>query_startDate := Some (DateOnly (2024, 1, 1)),
                     query_endDate := Some (DateOnly (2024, 1, 3))\<rparr>) demo_store) =
     (200, DayTotals [((2024, 1, 1), Some 4250), ((2024, 1, 3), Some 1000)])
   \<and> fst (get_range_category_summary demo_env 1
     (blank_request\<lparr>query_startDate := Some (DateOnly (2024, 1, 1)),
                     query_endDate := Some (DateOnly (2024, 1, 3))\<rparr>) demo_store) =
     (200, CategoryTotals [(Some ''food'', Some 4250), (Some ''transport'', Some 1000)])"
proof -
  let ?req = "blank_request\<lparr>query_startDate := Some (DateOnly (2024, 1, 1)),
                             query_endDate := Some (DateOnly (2024, 1, 3))\<rparr>"
  let ?x = "\<lparr>e_id = 1, amount = Some 1000, description = Some ''bus'',
             category = Some ''transport'',
             created_at = Some ((2024, 1, 3), 54000000000), user_id = 1\<rparr>"
  have h: "fault demo_env = None"
      "query_startDate ?req = Some (DateOnly (2024, 1, 1))"
      "query_endDate ?req = Some (DateOnly (2024, 1, 3))"
      "?x \<in> set (expenses demo_store)" "user_id ?x = 1"
      "created_at ?x = Some ((2024, 1, 3), 54000000000)" "(0::nat) < 54000000000"
      "((2024, 1, 1) :: date) \<le> (2024, 1, 3)"
    by (simp_all add: demo_env_def demo_store_def blank_request_def)
  have late: "after_midnight_on (2024, 1, 3) ?x"
    using weekly_reports_compare_timestamps [OF h] by (rule conjunct1)
  have eval: "fst (get_weekly_summary demo_env 1 ?req demo_store) =
       (200, DayTotals [((2024, 1, 1), Some 4250)])
     \<and> fst (get_weekly_category_summary demo_env 1 ?req demo_store) =
       (200, CategoryTotals [(Some ''food'', Some 4250)])
     \<and> fst (get_range_daily_summary demo_env 1 ?req demo_store) =
       (200, DayTotals [((2024, 1, 1), Some 4250), ((2024, 1, 3), Some 1000)])
     \<and> fst (get_range_category_summary demo_env 1 ?req demo_store) =
       (200, CategoryTotals [(Some ''food'', Some 4250), (Some ''transport'', Some 1000)])"
    by (simp add: get_weekly_summary_def get_weekly_category_summary_def
          get_range_daily_summary_def get_range_category_summary_def
          demo_env_def demo_store_def blank_request_def order_by_desc_def
          prepare_def unreferenced_def upt_rec owned_def between_dates_def between_timestamps_def
          sql_between_def to_date_def
          group_sum_def day_key_def sql_sum_def List.map_filter_simps)
  from late eval show ?thesis by (rule conjI)
qed

end
